theory Spec2Isabelle
  imports Main
begin

section \<open>The HTTP transport of the string service (transport/http.go)\<close>

subsection \<open>Errors and the values that cross the transport boundary\<close>

text \<open>
  A Go \<^verbatim>\<open>error\<close> has an identity and a message. The package declares one error
  value of its own, \<^verbatim>\<open>ErrorBadRequest = errors.New("invalid request parameter")\<close>;
  every other error (of an endpoint, of the JSON encoder) is \<open>OtherError\<close> with its
  message. \<open>OtherError ''invalid request parameter''\<close> has the message of
  \<open>ErrorBadRequest\<close> and is still a different error, as in Go.
\<close>

datatype go_error = ErrorBadRequest | OtherError string

fun Error :: "go_error \<Rightarrow> string" where
  "Error ErrorBadRequest = ''invalid request parameter''"
| "Error (OtherError msg) = msg"

text \<open>
  Modelled from the spec: the declaration of \<^verbatim>\<open>endpoint.StringRequest\<close> lives in the
  endpoint package, which is not among the sources. The transport builds it from three
  strings under the field names \<^verbatim>\<open>RequestType\<close>, \<^verbatim>\<open>A\<close>, \<^verbatim>\<open>B\<close>
  (the spec's operation request with its operation type and two operands).
\<close>

record StringRequest =
  RequestType :: string
  A :: string
  B :: string

text \<open>
  An \<^verbatim>\<open>interface{}\<close> value, as far as this file builds or passes one on: \<^verbatim>\<open>nil\<close>,
  a string, a \<^verbatim>\<open>map[string]interface{}\<close> (the pairs of a composite literal), a
  \<^verbatim>\<open>StringRequest\<close>, the empty struct \<^verbatim>\<open>endpoint.HealthRequest{}\<close>
  (modelled from the spec: its declaration is in the endpoint package too; the spec calls
  it the empty health-check marker), and whatever else an endpoint returns (\<open>OpaqueV\<close>).
\<close>

datatype 'a interface =
    NilV
  | StringV string
  | MapV "(string \<times> 'a interface) list"
  | StringRequestV StringRequest
  | HealthRequestV
  | OpaqueV 'a

subsection \<open>Requests and response writers (net/http, gorilla/mux)\<close>

text \<open>
  The parts of an \<^verbatim>\<open>*http.Request\<close>: method, path, query string, headers, body, its
  context, and the route variables the router stored for it, which \<^verbatim>\<open>mux.Vars(r)\<close>
  returns (the empty map when there are none: a lookup in Go's nil map finds nothing).
\<close>

record 'c Request =
  Method :: string
  Path :: string
  RawQuery :: string
  ReqHeader :: "string \<rightharpoonup> string list"
  ReqBody :: string
  Ctx :: 'c
  Vars :: "string \<rightharpoonup> string"

text \<open>
  An \<^verbatim>\<open>http.ResponseWriter\<close> that records what it is given: the header map of
  \<^verbatim>\<open>w.Header()\<close>, the status code once the status line is written (\<open>None\<close> before),
  the headers as they stood at that moment (the ones that reach the client), and the
  bytes of the body. The file only ever calls \<^verbatim>\<open>Header().Set\<close> with the key
  \<^verbatim>\<open>Content-Type\<close>, which is its own canonical form and gets the one value.
\<close>

record ResponseWriter =
  header :: "string \<rightharpoonup> string"
  status :: "nat option"
  sent :: "string \<rightharpoonup> string"
  body :: string

definition StatusOK :: nat where
  "StatusOK = 200"

definition StatusInternalServerError :: nat where
  "StatusInternalServerError = 500"

definition Header_Set :: "string \<Rightarrow> string \<Rightarrow> ResponseWriter \<Rightarrow> ResponseWriter" where
  "Header_Set k v w = w\<lparr>header := (header w)(k \<mapsto> v)\<rparr>"

text \<open>
  \<^verbatim>\<open>WriteHeader\<close>: the first call writes the status line with the headers set so far;
  a later call changes nothing.
\<close>

definition WriteHeader :: "nat \<Rightarrow> ResponseWriter \<Rightarrow> ResponseWriter" where
  "WriteHeader code w =
     (case status w of
        Some _ \<Rightarrow> w
      | None \<Rightarrow> w\<lparr>status := Some code, sent := header w\<rparr>)"

text \<open>
  \<^verbatim>\<open>Write\<close>: when no status line has been written yet, it first writes the default one,
  \<^verbatim>\<open>WriteHeader(http.StatusOK)\<close>; then the bytes are appended to the body. The
  recording writer accepts every write (a broken connection is not part of the model).
\<close>

definition Write :: "string \<Rightarrow> ResponseWriter \<Rightarrow> ResponseWriter" where
  "Write bs w = (let w' = WriteHeader StatusOK w in w'\<lparr>body := body w' @ bs\<rparr>)"

text \<open>
  \<^verbatim>\<open>json.NewEncoder(w).Encode(v)\<close>. What encoding/json makes of a value is a parameter:
  \<open>marshal v\<close> is \<open>Inr\<close> the bytes the encoder emits for \<open>v\<close> (the JSON text and its
  closing newline), or \<open>Inl\<close> the error it returns for a value it cannot serialize.
  The encoder serializes into its own buffer first, so a failing value writes nothing.
\<close>

definition Encoder_Encode ::
  "('a interface \<Rightarrow> go_error + string) \<Rightarrow> ResponseWriter \<Rightarrow> 'a interface
     \<Rightarrow> ResponseWriter \<times> go_error option" where
  "Encoder_Encode marshal w v =
     (case marshal v of
        Inl e \<Rightarrow> (w, Some e)
      | Inr doc \<Rightarrow> (Write doc w, None))"

subsection \<open>The decoders and encoders of the file\<close>

definition decodeStringRequest :: "'c \<Rightarrow> 'c Request \<Rightarrow> 'a interface \<times> go_error option" where
  "decodeStringRequest ctx r =
     (let vars = Vars r in
      case vars ''type'' of
        None \<Rightarrow> (NilV, Some ErrorBadRequest)
      | Some requestType \<Rightarrow>
          (case vars ''a'' of
             None \<Rightarrow> (NilV, Some ErrorBadRequest)
           | Some pa \<Rightarrow>
               (case vars ''b'' of
                  None \<Rightarrow> (NilV, Some ErrorBadRequest)
                | Some pb \<Rightarrow>
                    (StringRequestV \<lparr>RequestType = requestType, A = pa, B = pb\<rparr>, None))))"

definition encodeStringResponse ::
  "('a interface \<Rightarrow> go_error + string) \<Rightarrow> 'c \<Rightarrow> ResponseWriter \<Rightarrow> 'a interface
     \<Rightarrow> ResponseWriter \<times> go_error option" where
  "encodeStringResponse marshal ctx w response =
     (let w1 = Header_Set ''Content-Type'' ''application/json;charset=utf-8'' w
      in Encoder_Encode marshal w1 response)"

definition decodeHealthCheckRequest :: "'c \<Rightarrow> 'c Request \<Rightarrow> 'a interface \<times> go_error option" where
  "decodeHealthCheckRequest ctx r = (HealthRequestV, None)"

text \<open>
  The \<^verbatim>\<open>switch err\<close> of \<^verbatim>\<open>encodeError\<close> has a \<^verbatim>\<open>default\<close> branch and no other, so
  the status does not depend on \<open>err\<close>. The result of \<^verbatim>\<open>Encode\<close> is dropped.
\<close>

definition encodeError ::
  "('a interface \<Rightarrow> go_error + string) \<Rightarrow> 'c \<Rightarrow> go_error \<Rightarrow> ResponseWriter \<Rightarrow> ResponseWriter" where
  "encodeError marshal ctx err w =
     (let w1 = Header_Set ''Content-Type'' ''application/json; charset=utf-8'' w;
          w2 = WriteHeader StatusInternalServerError w1
      in fst (Encoder_Encode marshal w2 (MapV [(''error'', StringV (Error err))])))"

subsection \<open>The server pipeline (go-kit) and the route table\<close>

text \<open>
  What a handler works on during one call: the response writer, the state of the
  business logic behind the endpoints (the transport never looks into it; only an
  endpoint can change it), and the errors handed to the server's error handler, which
  \<^verbatim>\<open>transport.NewLogErrorHandler(logger)\<close> logs.
\<close>

record 's conn =
  writer :: ResponseWriter
  service :: 's
  logged :: "go_error list"

type_synonym ('c, 'a, 's) Endpoint =
  "'c \<Rightarrow> 'a interface \<Rightarrow> 's \<Rightarrow> ('a interface \<times> go_error option) \<times> 's"

type_synonym ('c, 's) Handler = "'c Request \<Rightarrow> 's conn \<Rightarrow> 's conn"

text \<open>
  Modelled from the spec: the per-call pipeline is \<^verbatim>\<open>ServeHTTP\<close> of the server that
  \<^verbatim>\<open>kithttp.NewServer(endpoint, dec, enc, options...)\<close> returns, go-kit code that is
  not among the sources. The spec gives it as (decode) \<open>\<rightarrow>\<close> (dispatch) \<open>\<rightarrow>\<close>
  (encode-success | encode-error): a decode failure skips the dispatch and goes to the
  error encoder, and so does a dispatch failure. The spec is silent on a failing success
  encoder; go-kit hands that error to the error handler and the error encoder as well,
  with the writer as the success encoder left it. With the two options of
  \<^verbatim>\<open>MakeHttpHandler\<close>, every error is first given to the error handler (logged) and
  then to \<open>errorEncoder\<close>.
\<close>

definition ServeHTTP ::
  "('c, 'a, 's) Endpoint
     \<Rightarrow> ('c \<Rightarrow> 'c Request \<Rightarrow> 'a interface \<times> go_error option)
     \<Rightarrow> ('c \<Rightarrow> ResponseWriter \<Rightarrow> 'a interface \<Rightarrow> ResponseWriter \<times> go_error option)
     \<Rightarrow> ('c \<Rightarrow> go_error \<Rightarrow> ResponseWriter \<Rightarrow> ResponseWriter)
     \<Rightarrow> ('c, 's) Handler" where
  "ServeHTTP e dec enc errorEncoder r k =
     (let ctx = Ctx r in
      case dec ctx r of
        (request, Some err) \<Rightarrow>
          k\<lparr>writer := errorEncoder ctx err (writer k), logged := logged k @ [err]\<rparr>
      | (request, None) \<Rightarrow>
          (case e ctx request (service k) of
             ((response, Some err), s') \<Rightarrow>
               k\<lparr>writer := errorEncoder ctx err (writer k), service := s',
                 logged := logged k @ [err]\<rparr>
           | ((response, None), s') \<Rightarrow>
               (case enc ctx (writer k) response of
                  (w', Some err) \<Rightarrow>
                    k\<lparr>writer := errorEncoder ctx err w', service := s',
                      logged := logged k @ [err]\<rparr>
                | (w', None) \<Rightarrow> k\<lparr>writer := w', service := s'\<rparr>)))"

text \<open>
  Modelled from the spec: \<^verbatim>\<open>endpoint.StringEndpoints\<close> is declared in the endpoint
  package; the transport reads its two fields, the operation endpoint and the health
  endpoint.
\<close>

record ('c, 'a, 's) StringEndpoints =
  StringEndpoint :: "('c, 'a, 's) Endpoint"
  HealthCheckEndpoint :: "('c, 'a, 's) Endpoint"

text \<open>
  A route of the mux router: the methods it is restricted to (none: every method), its
  path template and its handler. \<^verbatim>\<open>MakeHttpHandler\<close> registers its routes in this
  order. The metrics handler \<^verbatim>\<open>promhttp.Handler()\<close> and the JSON encoder are parameters;
  the \<^verbatim>\<open>ctx\<close> argument is not used by the source, and the logger is the \<open>logged\<close> list.
\<close>

record ('c, 's) Route =
  methods :: "string list"
  template :: string
  handler :: "('c, 's) Handler"

definition MakeHttpHandler ::
  "('a interface \<Rightarrow> go_error + string) \<Rightarrow> ('c, 's) Handler
     \<Rightarrow> 'c \<Rightarrow> ('c, 'a, 's) StringEndpoints \<Rightarrow> ('c, 's) Route list" where
  "MakeHttpHandler marshal promHandler ctx endpoints =
     [\<lparr>methods = [''POST''], template = ''/op/{type}/{a}/{b}'',
        handler = ServeHTTP (StringEndpoint endpoints) decodeStringRequest
                    (encodeStringResponse marshal) (encodeError marshal)\<rparr>,
      \<lparr>methods = [], template = ''/metrics'', handler = promHandler\<rparr>,
      \<lparr>methods = [''GET''], template = ''/health'',
        handler = ServeHTTP (HealthCheckEndpoint endpoints) decodeHealthCheckRequest
                    (encodeStringResponse marshal) (encodeError marshal)\<rparr>]"

subsection \<open>Concrete inputs\<close>

text \<open>
  Small concrete values at which the theorems below are instantiated: a writer nothing
  has been written to, a stand-in for the JSON encoder (it prints a one-entry map of a
  string and a string without escaping, and knows no opaque value but the positive
  numbers), and an endpoint that concatenates the two operands and counts its calls.
\<close>

definition NewRecorder :: ResponseWriter where
  "NewRecorder = \<lparr>header = Map.empty, status = None, sent = Map.empty, body = []\<rparr>"

fun toy_marshal :: "nat interface \<Rightarrow> go_error + string" where
  "toy_marshal (StringV s) = Inr (s @ [CHR 0x0A])"
| "toy_marshal (MapV [(k, StringV s)]) = Inr (''{'' @ k @ '':'' @ s @ ''}'' @ [CHR 0x0A])"
| "toy_marshal (OpaqueV (Suc n)) = Inr (''ok'' @ [CHR 0x0A])"
| "toy_marshal v = Inl (OtherError ''json: unsupported type'')"

definition toy_endpoint :: "(unit, nat, nat) Endpoint" where
  "toy_endpoint ctx request calls =
     (case request of
        StringRequestV q \<Rightarrow>
          (if RequestType q = ''Concat'' then ((StringV (A q @ B q), None), Suc calls)
           else ((NilV, Some (OtherError ''invalid request type'')), Suc calls))
      | _ \<Rightarrow> ((OpaqueV 0, None), Suc calls))"

definition toy_errdoc :: "string \<Rightarrow> string" where
  "toy_errdoc m = ''{error:'' @ m @ ''}'' @ [CHR 0x0A]"

definition toy_request :: "string \<Rightarrow> (string \<rightharpoonup> string) \<Rightarrow> unit Request" where
  "toy_request p vs =
     \<lparr>Method = ''POST'', Path = p, RawQuery = [], ReqHeader = Map.empty, ReqBody = [],
      Ctx = (), Vars = vs\<rparr>"

section \<open>The decoders\<close>

text \<open>
  C4. For every request (whatever its method, path, query string, headers, body and route
  variables) and every context, \<open>decodeHealthCheckRequest\<close> returns the empty
  \<open>HealthRequest\<close> value and a nil error.
\<close>

theorem decodeHealthCheckRequest_always:
  "decodeHealthCheckRequest ctx r = (HealthRequestV, None)"
  by (simp add: decodeHealthCheckRequest_def)

lemma decodeStringRequest_Some:
  "Vars r ''type'' = Some t \<Longrightarrow> Vars r ''a'' = Some a \<Longrightarrow> Vars r ''b'' = Some b \<Longrightarrow>
   decodeStringRequest ctx r = (StringRequestV \<lparr>RequestType = t, A = a, B = b\<rparr>, None)"
  by (simp add: decodeStringRequest_def)

lemma decodeStringRequest_None:
  "Vars r ''type'' = None \<or> Vars r ''a'' = None \<or> Vars r ''b'' = None \<Longrightarrow>
   decodeStringRequest ctx r = (NilV, Some ErrorBadRequest)"
  by (auto simp: decodeStringRequest_def Let_def split: option.splits)

text \<open>
  C2. For every request whose route variables (of the route \<^verbatim>\<open>/op/{type}/{a}/{b}\<close>)
  contain \<open>type\<close>, \<open>a\<close> and \<open>b\<close>, \<open>decodeStringRequest\<close> returns a nil error and the
  \<open>StringRequest\<close> whose fields \<open>RequestType\<close>, \<open>A\<close>, \<open>B\<close> are exactly the three
  strings found there: nothing is parsed, trimmed or checked, the three strings are
  arbitrary.
\<close>

theorem decodeStringRequest_verbatim:
  assumes "Vars r ''type'' = Some t" and "Vars r ''a'' = Some a" and "Vars r ''b'' = Some b"
  shows "decodeStringRequest ctx r = (StringRequestV \<lparr>RequestType = t, A = a, B = b\<rparr>, None)"
  using assms by (rule decodeStringRequest_Some)

theorem decodeStringRequest_verbatim_witness:
  "decodeStringRequest ()
     (toy_request ''/op/ no such op /007/ x''
        [''type'' \<mapsto> '' no such op '', ''a'' \<mapsto> ''007'', ''b'' \<mapsto> '' x''])
   = (StringRequestV \<lparr>RequestType = '' no such op '', A = ''007'', B = '' x''\<rparr>
        :: nat interface, None)"
  by (rule decodeStringRequest_verbatim) (simp_all add: toy_request_def)

text \<open>
  C9. Only the presence of \<open>type\<close>, \<open>a\<close> and \<open>b\<close> is checked, not their contents:
  when all three are present and one or more of them is the empty string, decoding
  still succeeds, and the request carries the empty string in that field.
\<close>

theorem decodeStringRequest_empty_values:
  assumes "Vars r ''type'' = Some t" and "Vars r ''a'' = Some a" and "Vars r ''b'' = Some b"
    and "t = [] \<or> a = [] \<or> b = []"
  shows "\<exists>q. decodeStringRequest ctx r = (StringRequestV q, None)
    \<and> RequestType q = t \<and> A q = a \<and> B q = b
    \<and> (RequestType q = [] \<or> A q = [] \<or> B q = [])"
  using assms by (simp add: decodeStringRequest_Some)

theorem decodeStringRequest_empty_values_witness:
  "\<exists>q. decodeStringRequest () (toy_request ''/op/Concat//''
          [''type'' \<mapsto> ''Concat'', ''a'' \<mapsto> [], ''b'' \<mapsto> []])
        = (StringRequestV q :: nat interface, None)
     \<and> RequestType q = ''Concat'' \<and> A q = [] \<and> B q = []
     \<and> (RequestType q = [] \<or> A q = [] \<or> B q = [])"
  by (rule decodeStringRequest_empty_values) (simp_all add: toy_request_def)

text \<open>
  C3. When at least one of \<open>type\<close>, \<open>a\<close>, \<open>b\<close> is missing from the route variables,
  \<open>decodeStringRequest\<close> returns a nil request and \<open>ErrorBadRequest\<close>, the one error
  value with the message \<^verbatim>\<open>invalid request parameter\<close>, whichever variable is missing.
  In the server pipeline no dispatch follows: whatever the endpoint is, the state behind
  it is left as it was, and the writer is what the error encoder makes of that error.
\<close>

theorem decodeStringRequest_missing:
  assumes "Vars r ''type'' = None \<or> Vars r ''a'' = None \<or> Vars r ''b'' = None"
  shows "decodeStringRequest ctx r = (NilV :: 'a interface, Some ErrorBadRequest)
    \<and> Error ErrorBadRequest = ''invalid request parameter''
    \<and> service (ServeHTTP (e :: ('c, 'a, 's) Endpoint) decodeStringRequest enc errorEncoder r k)
        = service k
    \<and> ServeHTTP e decodeStringRequest enc errorEncoder r k
        = k\<lparr>writer := errorEncoder (Ctx r) ErrorBadRequest (writer k),
            logged := logged k @ [ErrorBadRequest]\<rparr>"
  using assms by (simp add: decodeStringRequest_None ServeHTTP_def)

theorem decodeStringRequest_missing_witness:
  "decodeStringRequest () (toy_request ''/op/Concat/ab'' [''type'' \<mapsto> ''Concat'', ''a'' \<mapsto> ''ab''])
     = (NilV :: nat interface, Some ErrorBadRequest)
   \<and> service (ServeHTTP toy_endpoint decodeStringRequest (encodeStringResponse toy_marshal)
        (encodeError toy_marshal)
        (toy_request ''/op/Concat/ab'' [''type'' \<mapsto> ''Concat'', ''a'' \<mapsto> ''ab''])
        \<lparr>writer = NewRecorder, service = 0, logged = []\<rparr>) = 0"
proof -
  let ?r = "toy_request ''/op/Concat/ab'' [''type'' \<mapsto> ''Concat'', ''a'' \<mapsto> ''ab'']"
  have "Vars ?r ''type'' = None \<or> Vars ?r ''a'' = None \<or> Vars ?r ''b'' = None"
    by (simp add: toy_request_def)
  from decodeStringRequest_missing [OF this, of "()" toy_endpoint
      "encodeStringResponse toy_marshal" "encodeError toy_marshal"
      "\<lparr>writer = NewRecorder, service = 0, logged = []\<rparr>"]
  show ?thesis by simp
qed

section \<open>The encoders\<close>

lemma header_Header_Set [simp]: "header (Header_Set k v w) = (header w)(k \<mapsto> v)"
  and status_Header_Set [simp]: "status (Header_Set k v w) = status w"
  and sent_Header_Set [simp]: "sent (Header_Set k v w) = sent w"
  and body_Header_Set [simp]: "body (Header_Set k v w) = body w"
  by (simp_all add: Header_Set_def)

lemma header_WriteHeader [simp]: "header (WriteHeader c w) = header w"
  and body_WriteHeader [simp]: "body (WriteHeader c w) = body w"
  and status_WriteHeader:
    "status (WriteHeader c w) = Some (case status w of None \<Rightarrow> c | Some c' \<Rightarrow> c')"
  and sent_WriteHeader:
    "sent (WriteHeader c w) = (case status w of None \<Rightarrow> header w | Some c' \<Rightarrow> sent w)"
  by (simp_all add: WriteHeader_def split: option.splits)

lemma header_Write [simp]: "header (Write bs w) = header w"
  and body_Write [simp]: "body (Write bs w) = body w @ bs"
  and status_Write:
    "status (Write bs w) = Some (case status w of None \<Rightarrow> StatusOK | Some c' \<Rightarrow> c')"
  and sent_Write:
    "sent (Write bs w) = (case status w of None \<Rightarrow> header w | Some c' \<Rightarrow> sent w)"
  by (simp_all add: Write_def Let_def status_WriteHeader sent_WriteHeader)

lemma encodeStringResponse_Inr:
  "marshal v = Inr doc \<Longrightarrow>
   encodeStringResponse marshal ctx w v
     = (Write doc (Header_Set ''Content-Type'' ''application/json;charset=utf-8'' w), None)"
  by (simp add: encodeStringResponse_def Encoder_Encode_def)

lemma encodeStringResponse_Inl:
  "marshal v = Inl e \<Longrightarrow>
   encodeStringResponse marshal ctx w v
     = (Header_Set ''Content-Type'' ''application/json;charset=utf-8'' w, Some e)"
  by (simp add: encodeStringResponse_def Encoder_Encode_def)

lemma encodeError_Inr:
  "marshal (MapV [(''error'', StringV (Error err))]) = Inr doc \<Longrightarrow>
   encodeError marshal ctx err w
     = Write doc (WriteHeader StatusInternalServerError
         (Header_Set ''Content-Type'' ''application/json; charset=utf-8'' w))"
  by (simp add: encodeError_def Encoder_Encode_def)

lemma encodeError_Inl:
  "marshal (MapV [(''error'', StringV (Error err))]) = Inl e \<Longrightarrow>
   encodeError marshal ctx err w
     = WriteHeader StatusInternalServerError
         (Header_Set ''Content-Type'' ''application/json; charset=utf-8'' w)"
  by (simp add: encodeError_def Encoder_Encode_def)

text \<open>
  C1. Whatever the error is (\<open>ErrorBadRequest\<close> of the decoder like any other),
  \<open>encodeError\<close> on a writer whose status line is not yet written sets the content type
  \<^verbatim>\<open>application/json; charset=utf-8\<close>, writes the status 500 with that header, and
  writes as the body what the JSON encoder emits for the one-entry map from
  \<^verbatim>\<open>"error"\<close> to the error's message \<open>Error err\<close>.
\<close>

theorem encodeError_always_500:
  assumes "status w = None"
    and "marshal (MapV [(''error'', StringV (Error err))]) = Inr doc"
  shows "status (encodeError marshal ctx err w) = Some 500
    \<and> header (encodeError marshal ctx err w) ''Content-Type''
        = Some ''application/json; charset=utf-8''
    \<and> sent (encodeError marshal ctx err w) ''Content-Type''
        = Some ''application/json; charset=utf-8''
    \<and> body (encodeError marshal ctx err w) = body w @ doc"
  using assms
  by (simp add: encodeError_Inr status_Write status_WriteHeader sent_Write sent_WriteHeader
      StatusInternalServerError_def)

theorem encodeError_always_500_witness:
  "status (encodeError toy_marshal () ErrorBadRequest NewRecorder) = Some 500
   \<and> body (encodeError toy_marshal () ErrorBadRequest NewRecorder)
       = ''{error:invalid request parameter}'' @ [CHR 0x0A]
   \<and> sent (encodeError toy_marshal () ErrorBadRequest NewRecorder) ''Content-Type''
       = Some ''application/json; charset=utf-8''"
proof -
  have 1: "status NewRecorder = None"
    by (simp add: NewRecorder_def)
  have 2: "toy_marshal (MapV [(''error'', StringV (Error ErrorBadRequest))])
      = Inr (''{error:invalid request parameter}'' @ [CHR 0x0A])"
    by simp
  from encodeError_always_500
    [where marshal = toy_marshal and err = ErrorBadRequest and w = NewRecorder and ctx = "()",
      OF 1 2]
  show ?thesis
    by (simp add: NewRecorder_def)
qed

text \<open>
  C5. For every response value, \<open>encodeStringResponse\<close> sets the content type
  \<^verbatim>\<open>application/json;charset=utf-8\<close>. When the value has a JSON serialization, it
  returns a nil error and appends exactly that serialization to the body; it writes no
  status code of its own: on a writer without a status line the first write brings the
  default status 200 (sent with that content type), and a status already written stays.
\<close>

theorem encodeStringResponse_writes_json:
  "header (fst (encodeStringResponse marshal ctx w v)) ''Content-Type''
     = Some ''application/json;charset=utf-8''
   \<and> (marshal v = Inr doc \<longrightarrow>
        snd (encodeStringResponse marshal ctx w v) = None
      \<and> body (fst (encodeStringResponse marshal ctx w v)) = body w @ doc
      \<and> status (fst (encodeStringResponse marshal ctx w v))
          = Some (case status w of None \<Rightarrow> 200 | Some c \<Rightarrow> c)
      \<and> (status w = None \<longrightarrow>
            sent (fst (encodeStringResponse marshal ctx w v)) ''Content-Type''
              = Some ''application/json;charset=utf-8''))"
proof (cases "marshal v")
  case (Inl e)
  then show ?thesis by (simp add: encodeStringResponse_Inl)
next
  case (Inr d)
  then show ?thesis
    by (simp add: encodeStringResponse_Inr status_Write sent_Write StatusOK_def
        split: option.split)
qed

theorem encodeStringResponse_writes_json_witness:
  "encodeStringResponse toy_marshal () NewRecorder (StringV ''abcd'')
     = (\<lparr>header = [''Content-Type'' \<mapsto> ''application/json;charset=utf-8''],
         status = Some 200,
         sent = [''Content-Type'' \<mapsto> ''application/json;charset=utf-8''],
         body = ''abcd'' @ [CHR 0x0A]\<rparr>, None)"
proof -
  have 1: "toy_marshal (StringV ''abcd'') = Inr (''abcd'' @ [CHR 0x0A])"
    by simp
  have 2: "status NewRecorder = None"
    by (simp add: NewRecorder_def)
  have 3: "sent (fst (encodeStringResponse toy_marshal () NewRecorder (StringV ''abcd'')))
      = header (fst (encodeStringResponse toy_marshal () NewRecorder (StringV ''abcd'')))"
    by (simp add: encodeStringResponse_Inr [where marshal = toy_marshal, OF 1] sent_Write NewRecorder_def)
  have 4: "header (fst (encodeStringResponse toy_marshal () NewRecorder (StringV ''abcd'')))
      = [''Content-Type'' \<mapsto> ''application/json;charset=utf-8'']"
    by (simp add: encodeStringResponse_Inr [where marshal = toy_marshal, OF 1] NewRecorder_def)
  from encodeStringResponse_writes_json
    [of toy_marshal "()" NewRecorder "StringV ''abcd''" "''abcd'' @ [CHR 0x0A]"] 1 2 3 4
  show ?thesis
    by (cases "encodeStringResponse toy_marshal () NewRecorder (StringV ''abcd'')")
      (simp add: NewRecorder_def ResponseWriter.equality)
qed

text \<open>
  C10. \<open>encodeStringResponse\<close> sets the content type before it serializes: for every
  response value whose serialization fails, it returns the serialization error, and the
  writer it leaves behind has the content type set already, with nothing else touched
  (no status, no body). So the failed call has changed every writer that did not hold
  this content type before.
\<close>

theorem encodeStringResponse_failure_leaves_header:
  assumes "marshal v = Inl e"
  shows "snd (encodeStringResponse marshal ctx w v) = Some e
    \<and> header (fst (encodeStringResponse marshal ctx w v)) ''Content-Type''
        = Some ''application/json;charset=utf-8''
    \<and> status (fst (encodeStringResponse marshal ctx w v)) = status w
    \<and> body (fst (encodeStringResponse marshal ctx w v)) = body w
    \<and> (header w ''Content-Type'' \<noteq> Some ''application/json;charset=utf-8''
        \<longrightarrow> fst (encodeStringResponse marshal ctx w v) \<noteq> w)"
proof -
  let ?ct = "''application/json;charset=utf-8''"
  have "header w ''Content-Type'' = Some ?ct" if "Header_Set ''Content-Type'' ?ct w = w"
  proof -
    have "header (Header_Set ''Content-Type'' ?ct w) ''Content-Type'' = Some ?ct"
      by simp
    with that show ?thesis by simp
  qed
  with assms show ?thesis
    by (auto simp: encodeStringResponse_Inl)
qed

theorem encodeStringResponse_failure_leaves_header_witness:
  "snd (encodeStringResponse toy_marshal () NewRecorder (OpaqueV 0))
     = Some (OtherError ''json: unsupported type'')
   \<and> header (fst (encodeStringResponse toy_marshal () NewRecorder (OpaqueV 0))) ''Content-Type''
     = Some ''application/json;charset=utf-8''
   \<and> header NewRecorder ''Content-Type'' = None
   \<and> fst (encodeStringResponse toy_marshal () NewRecorder (OpaqueV 0)) \<noteq> NewRecorder"
proof -
  have 1: "toy_marshal (OpaqueV 0) = Inl (OtherError ''json: unsupported type'')"
    by simp
  have 2: "header NewRecorder ''Content-Type'' = None"
    by (simp add: NewRecorder_def)
  from encodeStringResponse_failure_leaves_header
    [where marshal = toy_marshal and ctx = "()" and w = NewRecorder, OF 1] 2
  show ?thesis by simp
qed

section \<open>The pipeline and the routes\<close>

lemma ServeHTTP_decode_error:
  "dec (Ctx r) r = (q, Some err) \<Longrightarrow>
   ServeHTTP e dec enc errorEncoder r k
     = k\<lparr>writer := errorEncoder (Ctx r) err (writer k), logged := logged k @ [err]\<rparr>"
  by (simp add: ServeHTTP_def)

lemma ServeHTTP_dispatch_error:
  "dec (Ctx r) r = (q, None) \<Longrightarrow> e (Ctx r) q (service k) = ((p, Some err), s') \<Longrightarrow>
   ServeHTTP e dec enc errorEncoder r k
     = k\<lparr>writer := errorEncoder (Ctx r) err (writer k), service := s',
         logged := logged k @ [err]\<rparr>"
  by (simp add: ServeHTTP_def)

lemma ServeHTTP_dispatch_ok:
  "dec (Ctx r) r = (q, None) \<Longrightarrow> e (Ctx r) q (service k) = ((p, None), s') \<Longrightarrow>
   ServeHTTP e dec enc errorEncoder r k
     = (case enc (Ctx r) (writer k) p of
          (w', Some err) \<Rightarrow>
            k\<lparr>writer := errorEncoder (Ctx r) err w', service := s', logged := logged k @ [err]\<rparr>
        | (w', None) \<Rightarrow> k\<lparr>writer := w', service := s'\<rparr>)"
  by (simp add: ServeHTTP_def Let_def)

lemma encodeError_fresh:
  assumes "status w = None" and "body w = []"
    and "marshal (MapV [(''error'', StringV (Error err))]) = Inr doc"
  shows "body (encodeError marshal ctx err w) = doc"
    and "status (encodeError marshal ctx err w) = Some 500"
  using assms
  by (simp_all add: encodeError_Inr status_Write status_WriteHeader
      StatusInternalServerError_def)

text \<open>
  C6. The pipeline a route of \<open>MakeHttpHandler\<close> runs, with \<open>encodeStringResponse\<close> as
  the encoder and \<open>encodeError\<close> as the error encoder, on a writer nothing has been
  written to. A decode failure goes straight to the error encoder and the state behind
  the endpoint is untouched (no dispatch); a dispatch failure goes to the error encoder
  too. Every call ends with exactly one document as the whole body: either the JSON
  of the endpoint's response with status 200 and no error logged, or the JSON error body
  of one error with status 500 and that error logged; never a prefix of one, never one
  after the other. The JSON encoder is a parameter that yields the bytes \<open>errdoc m\<close>
  for the error map of every message \<open>m\<close>.
\<close>

theorem ServeHTTP_single_body:
  fixes e :: "('c, 'a, 's) Endpoint"
  assumes fresh: "status (writer k) = None" "body (writer k) = []"
    and env: "\<And>m. marshal (MapV [(''error'', StringV m)]) = Inr (errdoc m)"
  shows "(\<forall>q err. dec (Ctx r) r = (q, Some err) \<longrightarrow>
            ServeHTTP e dec (encodeStringResponse marshal) (encodeError marshal) r k
              = k\<lparr>writer := encodeError marshal (Ctx r) err (writer k),
                  logged := logged k @ [err]\<rparr>)
    \<and> (\<forall>q p err s'. dec (Ctx r) r = (q, None)
            \<and> e (Ctx r) q (service k) = ((p, Some err), s') \<longrightarrow>
            ServeHTTP e dec (encodeStringResponse marshal) (encodeError marshal) r k
              = k\<lparr>writer := encodeError marshal (Ctx r) err (writer k), service := s',
                  logged := logged k @ [err]\<rparr>)
    \<and> (let k' = ServeHTTP e dec (encodeStringResponse marshal) (encodeError marshal) r k
       in (\<exists>q p s' doc. dec (Ctx r) r = (q, None)
              \<and> e (Ctx r) q (service k) = ((p, None), s') \<and> marshal p = Inr doc
              \<and> body (writer k') = doc \<and> status (writer k') = Some 200
              \<and> logged k' = logged k)
          \<or> (\<exists>err. body (writer k') = errdoc (Error err) \<and> status (writer k') = Some 500
              \<and> logged k' = logged k @ [err]))"
proof (intro conjI allI impI)
  fix q err
  assume "dec (Ctx r) r = (q, Some err)"
  then show "ServeHTTP e dec (encodeStringResponse marshal) (encodeError marshal) r k
      = k\<lparr>writer := encodeError marshal (Ctx r) err (writer k), logged := logged k @ [err]\<rparr>"
    by (rule ServeHTTP_decode_error)
next
  fix q p err s'
  assume "dec (Ctx r) r = (q, None) \<and> e (Ctx r) q (service k) = ((p, Some err), s')"
  then show "ServeHTTP e dec (encodeStringResponse marshal) (encodeError marshal) r k
      = k\<lparr>writer := encodeError marshal (Ctx r) err (writer k), service := s',
          logged := logged k @ [err]\<rparr>"
    by (simp add: ServeHTTP_dispatch_error)
next
  let ?k' = "ServeHTTP e dec (encodeStringResponse marshal) (encodeError marshal) r k"
  let ?ok = "\<exists>q p s' doc. dec (Ctx r) r = (q, None)
      \<and> e (Ctx r) q (service k) = ((p, None), s') \<and> marshal p = Inr doc
      \<and> body (writer ?k') = doc \<and> status (writer ?k') = Some 200 \<and> logged ?k' = logged k"
  let ?failed = "\<exists>err. body (writer ?k') = errdoc (Error err) \<and> status (writer ?k') = Some 500
      \<and> logged ?k' = logged k @ [err]"
  have after_error: ?failed
    if "writer ?k' = encodeError marshal (Ctx r) err w" and "logged ?k' = logged k @ [err]"
      and "status w = None" and "body w = []" for err w
    using that encodeError_fresh [where marshal = marshal and err = err, OF that(3,4) env]
    by auto
  obtain q derr where d: "dec (Ctx r) r = (q, derr)"
    by (cases "dec (Ctx r) r")
  have "?ok \<or> ?failed"
  proof (cases derr)
    case (Some err)
    with d have "?k' = k\<lparr>writer := encodeError marshal (Ctx r) err (writer k),
        logged := logged k @ [err]\<rparr>"
      by (simp add: ServeHTTP_decode_error)
    then have ?failed
      by (intro after_error [of err "writer k"]) (simp_all add: fresh)
    then show ?thesis ..
  next
    case None
    obtain p xerr s' where x: "e (Ctx r) q (service k) = ((p, xerr), s')"
      by (cases "e (Ctx r) q (service k)") auto
    show ?thesis
    proof (cases xerr)
      case (Some err)
      with d None x have "?k' = k\<lparr>writer := encodeError marshal (Ctx r) err (writer k),
          service := s', logged := logged k @ [err]\<rparr>"
        by (simp add: ServeHTTP_dispatch_error)
      then have ?failed
        by (intro after_error [of err "writer k"]) (simp_all add: fresh)
      then show ?thesis ..
    next
      case xNone: None
      show ?thesis
      proof (cases "marshal p")
        case (Inr doc)
        with d None x xNone have "?k' = k\<lparr>writer :=
            Write doc (Header_Set ''Content-Type'' ''application/json;charset=utf-8'' (writer k)),
            service := s'\<rparr>"
          by (simp add: ServeHTTP_dispatch_ok encodeStringResponse_Inr)
        then have "body (writer ?k') = doc" "status (writer ?k') = Some 200"
          "logged ?k' = logged k"
          by (simp_all add: fresh status_Write StatusOK_def)
        with d None x xNone Inr have ?ok
          by blast
        then show ?thesis ..
      next
        case (Inl jerr)
        let ?w = "Header_Set ''Content-Type'' ''application/json;charset=utf-8'' (writer k)"
        from d None x xNone Inl have "?k' = k\<lparr>writer := encodeError marshal (Ctx r) jerr ?w,
            service := s', logged := logged k @ [jerr]\<rparr>"
          by (simp add: ServeHTTP_dispatch_ok encodeStringResponse_Inl)
        then have ?failed
          by (intro after_error [of jerr ?w]) (simp_all add: fresh)
        then show ?thesis ..
      qed
    qed
  qed
  then show "let k' = ?k' in
      (\<exists>q p s' doc. dec (Ctx r) r = (q, None)
          \<and> e (Ctx r) q (service k) = ((p, None), s') \<and> marshal p = Inr doc
          \<and> body (writer k') = doc \<and> status (writer k') = Some 200 \<and> logged k' = logged k)
      \<or> (\<exists>err. body (writer k') = errdoc (Error err) \<and> status (writer k') = Some 500
          \<and> logged k' = logged k @ [err])"
    by (simp only: Let_def)
qed

theorem ServeHTTP_single_body_witness:
  "(\<exists>q p s' doc.
       decodeStringRequest ()
         (toy_request ''/op/Concat/ab/cd'' [''type'' \<mapsto> ''Concat'', ''a'' \<mapsto> ''ab'', ''b'' \<mapsto> ''cd''])
         = (q, None)
     \<and> toy_endpoint () q 0 = ((p, None), s') \<and> toy_marshal p = Inr doc
     \<and> body (writer (ServeHTTP toy_endpoint decodeStringRequest
          (encodeStringResponse toy_marshal) (encodeError toy_marshal)
          (toy_request ''/op/Concat/ab/cd'' [''type'' \<mapsto> ''Concat'', ''a'' \<mapsto> ''ab'', ''b'' \<mapsto> ''cd''])
          \<lparr>writer = NewRecorder, service = 0, logged = []\<rparr>)) = doc
     \<and> status (writer (ServeHTTP toy_endpoint decodeStringRequest
          (encodeStringResponse toy_marshal) (encodeError toy_marshal)
          (toy_request ''/op/Concat/ab/cd'' [''type'' \<mapsto> ''Concat'', ''a'' \<mapsto> ''ab'', ''b'' \<mapsto> ''cd''])
          \<lparr>writer = NewRecorder, service = 0, logged = []\<rparr>)) = Some 200
     \<and> logged (ServeHTTP toy_endpoint decodeStringRequest
          (encodeStringResponse toy_marshal) (encodeError toy_marshal)
          (toy_request ''/op/Concat/ab/cd'' [''type'' \<mapsto> ''Concat'', ''a'' \<mapsto> ''ab'', ''b'' \<mapsto> ''cd''])
          \<lparr>writer = NewRecorder, service = 0, logged = []\<rparr>) = [])
   \<or> (\<exists>err.
       body (writer (ServeHTTP toy_endpoint decodeStringRequest
          (encodeStringResponse toy_marshal) (encodeError toy_marshal)
          (toy_request ''/op/Concat/ab/cd'' [''type'' \<mapsto> ''Concat'', ''a'' \<mapsto> ''ab'', ''b'' \<mapsto> ''cd''])
          \<lparr>writer = NewRecorder, service = 0, logged = []\<rparr>)) = toy_errdoc (Error err)
     \<and> status (writer (ServeHTTP toy_endpoint decodeStringRequest
          (encodeStringResponse toy_marshal) (encodeError toy_marshal)
          (toy_request ''/op/Concat/ab/cd'' [''type'' \<mapsto> ''Concat'', ''a'' \<mapsto> ''ab'', ''b'' \<mapsto> ''cd''])
          \<lparr>writer = NewRecorder, service = 0, logged = []\<rparr>)) = Some 500
     \<and> logged (ServeHTTP toy_endpoint decodeStringRequest
          (encodeStringResponse toy_marshal) (encodeError toy_marshal)
          (toy_request ''/op/Concat/ab/cd'' [''type'' \<mapsto> ''Concat'', ''a'' \<mapsto> ''ab'', ''b'' \<mapsto> ''cd''])
          \<lparr>writer = NewRecorder, service = 0, logged = []\<rparr>) = [err])"
proof -
  let ?k = "\<lparr>writer = NewRecorder, service = 0::nat, logged = []\<rparr>"
  have 1: "status (writer ?k) = None" and 2: "body (writer ?k) = []"
    by (simp_all add: NewRecorder_def)
  have 3: "toy_marshal (MapV [(''error'', StringV m)]) = Inr (toy_errdoc m)" for m
    by (simp add: toy_errdoc_def)
  from ServeHTTP_single_body [where marshal = toy_marshal and errdoc = toy_errdoc
      and k = ?k and e = toy_endpoint and dec = decodeStringRequest
      and r = "toy_request ''/op/Concat/ab/cd''
        [''type'' \<mapsto> ''Concat'', ''a'' \<mapsto> ''ab'', ''b'' \<mapsto> ''cd'']", OF 1 2 3]
  show ?thesis
    by (simp add: Let_def toy_request_def)
qed

text \<open>
  The pipeline at concrete inputs, from a fresh writer: a successful call, a call the
  endpoint rejects, a call the decoder rejects, and a call whose response the JSON
  encoder rejects.
\<close>

lemma ServeHTTP_example_success:
  "ServeHTTP toy_endpoint decodeStringRequest
     (encodeStringResponse toy_marshal) (encodeError toy_marshal)
     (toy_request ''/op/Concat/ab/cd'' [''type'' \<mapsto> ''Concat'', ''a'' \<mapsto> ''ab'', ''b'' \<mapsto> ''cd''])
     \<lparr>writer = NewRecorder, service = 0, logged = []\<rparr>
   = \<lparr>writer = \<lparr>header = [''Content-Type'' \<mapsto> ''application/json;charset=utf-8''],
                 status = Some 200,
                 sent = [''Content-Type'' \<mapsto> ''application/json;charset=utf-8''],
                 body = ''abcd'' @ [CHR 0x0A]\<rparr>,
       service = 1, logged = []\<rparr>"
  by (simp add: ServeHTTP_def decodeStringRequest_def toy_request_def toy_endpoint_def
      encodeStringResponse_def Encoder_Encode_def Write_def WriteHeader_def Header_Set_def
      NewRecorder_def StatusOK_def Let_def)

lemma ServeHTTP_example_dispatch_error:
  "ServeHTTP toy_endpoint decodeStringRequest
     (encodeStringResponse toy_marshal) (encodeError toy_marshal)
     (toy_request ''/op/Div/1/0'' [''type'' \<mapsto> ''Div'', ''a'' \<mapsto> ''1'', ''b'' \<mapsto> ''0''])
     \<lparr>writer = NewRecorder, service = 0, logged = []\<rparr>
   = \<lparr>writer = \<lparr>header = [''Content-Type'' \<mapsto> ''application/json; charset=utf-8''],
                 status = Some 500,
                 sent = [''Content-Type'' \<mapsto> ''application/json; charset=utf-8''],
                 body = ''{error:invalid request type}'' @ [CHR 0x0A]\<rparr>,
       service = 1, logged = [OtherError ''invalid request type'']\<rparr>"
  by (simp add: ServeHTTP_def decodeStringRequest_def toy_request_def toy_endpoint_def
      encodeError_def Encoder_Encode_def Write_def WriteHeader_def Header_Set_def
      NewRecorder_def StatusOK_def StatusInternalServerError_def Let_def)

lemma ServeHTTP_example_decode_error:
  "ServeHTTP toy_endpoint decodeStringRequest
     (encodeStringResponse toy_marshal) (encodeError toy_marshal)
     (toy_request ''/op/Concat/ab'' [''type'' \<mapsto> ''Concat'', ''a'' \<mapsto> ''ab''])
     \<lparr>writer = NewRecorder, service = 0, logged = []\<rparr>
   = \<lparr>writer = \<lparr>header = [''Content-Type'' \<mapsto> ''application/json; charset=utf-8''],
                 status = Some 500,
                 sent = [''Content-Type'' \<mapsto> ''application/json; charset=utf-8''],
                 body = ''{error:invalid request parameter}'' @ [CHR 0x0A]\<rparr>,
       service = 0, logged = [ErrorBadRequest]\<rparr>"
  by (simp add: ServeHTTP_def decodeStringRequest_def toy_request_def
      encodeError_def Encoder_Encode_def Write_def WriteHeader_def Header_Set_def
      NewRecorder_def StatusOK_def StatusInternalServerError_def Let_def)

lemma ServeHTTP_example_encode_error:
  "ServeHTTP toy_endpoint decodeHealthCheckRequest
     (encodeStringResponse toy_marshal) (encodeError toy_marshal)
     (toy_request ''/health'' Map.empty)
     \<lparr>writer = NewRecorder, service = 0, logged = []\<rparr>
   = \<lparr>writer = \<lparr>header = [''Content-Type'' \<mapsto> ''application/json; charset=utf-8''],
                 status = Some 500,
                 sent = [''Content-Type'' \<mapsto> ''application/json; charset=utf-8''],
                 body = ''{error:json: unsupported type}'' @ [CHR 0x0A]\<rparr>,
       service = 1, logged = [OtherError ''json: unsupported type'']\<rparr>"
  by (simp add: ServeHTTP_def decodeHealthCheckRequest_def toy_request_def toy_endpoint_def
      encodeStringResponse_def encodeError_def Encoder_Encode_def Write_def WriteHeader_def
      Header_Set_def NewRecorder_def StatusOK_def StatusInternalServerError_def Let_def)

text \<open>
  C7. \<open>MakeHttpHandler\<close> registers exactly three routes: \<^verbatim>\<open>POST /op/{type}/{a}/{b}\<close>,
  whose handler is the pipeline of the operation endpoint with \<open>decodeStringRequest\<close>;
  \<^verbatim>\<open>/metrics\<close>, with no restriction of the method, whose handler is the metrics
  handler itself, so that every call gives what that handler gives; and
  \<^verbatim>\<open>GET /health\<close>, whose handler is the pipeline of the health endpoint with
  \<open>decodeHealthCheckRequest\<close>.
\<close>

theorem MakeHttpHandler_three_routes:
  "length (MakeHttpHandler marshal promHandler ctx endpoints) = 3
   \<and> map (\<lambda>\<rho>. (methods \<rho>, template \<rho>)) (MakeHttpHandler marshal promHandler ctx endpoints)
       = [([''POST''], ''/op/{type}/{a}/{b}''), ([], ''/metrics''), ([''GET''], ''/health'')]
   \<and> handler (MakeHttpHandler marshal promHandler ctx endpoints ! 0)
       = ServeHTTP (StringEndpoint endpoints) decodeStringRequest
           (encodeStringResponse marshal) (encodeError marshal)
   \<and> handler (MakeHttpHandler marshal promHandler ctx endpoints ! 1) r k = promHandler r k
   \<and> handler (MakeHttpHandler marshal promHandler ctx endpoints ! 2)
       = ServeHTTP (HealthCheckEndpoint endpoints) decodeHealthCheckRequest
           (encodeStringResponse marshal) (encodeError marshal)"
  by (simp add: MakeHttpHandler_def)

end
